theory Spec2Isabelle
  imports Complex_Main "HOL-Library.AList" "HOL-Library.List_Lexorder"
begin

section \<open>The runtime\<close>

text \<open>
  A Python \<open>str\<close> is a sequence of code points: the model takes a code point as a natural
  number and a \<open>str\<close> as the list of its code points. The text that the source writes is
  given with \<open>lit\<close>, from the characters of the literal.
\<close>

type_synonym str = "nat list"

definition lit :: "string \<Rightarrow> str" where
  "lit s = map (of_char :: char \<Rightarrow> nat) s"

text \<open>The errors of the operating system that the routes can meet.\<close>

datatype os_error = ENOENT | ENOTEMPTY | EISDIR | ENAMETOOLONG | ENOSPC | EACCES

text \<open>
  What comes from outside the repository is a parameter of the model: the tables of
  Python's Unicode database for the code points from 256 on (\<open>str.isspace\<close>,
  \<open>str.isalnum\<close> and \<open>str.isupper\<close> on one code point, and \<open>str.lower\<close> on a string
  that has such a code point), \<open>werkzeug.utils.secure_filename\<close>, \<open>mimetypes.guess_type\<close> (its first
  component) and the text \<open>str(e)\<close> of an operating-system exception at a path.
\<close>

record library =
  str_isspace :: "nat \<Rightarrow> bool"
  str_isalnum :: "nat \<Rightarrow> bool"
  str_isupper :: "nat \<Rightarrow> bool"
  str_lower :: "str \<Rightarrow> str"
  secure_filename :: "str \<Rightarrow> str"
  guess_type :: "str \<Rightarrow> str option"
  str_oserror :: "os_error \<Rightarrow> str \<Rightarrow> str"

section \<open>Python strings\<close>

text \<open>The classification of the code points below 256 (ASCII and the Latin-1
  supplement) is the one of Python, written out.\<close>

text \<open>\<open>str.isspace\<close>: tab to carriage return, the four separators \<open>0x1c\<close> to \<open>0x1f\<close>,
  the space, \<open>0x85\<close> and the no-break space.\<close>

definition isspace_latin1 :: "nat \<Rightarrow> bool" where
  "isspace_latin1 n = ((9 \<le> n \<and> n \<le> 13) \<or> (28 \<le> n \<and> n \<le> 32) \<or> n = 133 \<or> n = 160)"

text \<open>\<open>str.isalnum\<close>: \<open>isalpha\<close>, \<open>isdecimal\<close>, \<open>isdigit\<close> or \<open>isnumeric\<close>. Below 128
  these are the digits and the letters; in the Latin-1 supplement the letters (\<open>0xaa\<close>,
  \<open>0xb5\<close>, \<open>0xba\<close>, \<open>0xc0\<close> to \<open>0xff\<close> without the two operators \<open>0xd7\<close> and \<open>0xf7\<close>),
  the superscript digits and the three fractions.\<close>

definition isalnum_latin1 :: "nat \<Rightarrow> bool" where
  "isalnum_latin1 n =
     ((48 \<le> n \<and> n \<le> 57) \<or> (65 \<le> n \<and> n \<le> 90) \<or> (97 \<le> n \<and> n \<le> 122) \<or>
      n = 170 \<or> n = 178 \<or> n = 179 \<or> n = 181 \<or> n = 185 \<or> n = 186 \<or>
      n = 188 \<or> n = 189 \<or> n = 190 \<or>
      (192 \<le> n \<and> n \<le> 214) \<or> (216 \<le> n \<and> n \<le> 246) \<or> (248 \<le> n \<and> n \<le> 255))"

text \<open>\<open>str.lower\<close>: the upper-case letters below 256 are \<open>A\<close> to \<open>Z\<close> and \<open>0xc0\<close> to
  \<open>0xde\<close> without \<open>0xd7\<close>; each has its lower-case letter 32 places on.\<close>

definition isupper_latin1 :: "nat \<Rightarrow> bool" where
  "isupper_latin1 n = ((65 \<le> n \<and> n \<le> 90) \<or> (192 \<le> n \<and> n \<le> 214) \<or> (216 \<le> n \<and> n \<le> 222))"

definition lower_latin1 :: "nat \<Rightarrow> nat" where
  "lower_latin1 n = (if isupper_latin1 n then n + 32 else n)"

text \<open>The functions of \<open>str\<close> on every code point: the tables above below 256, the
  tables of the library from 256 on. \<open>str.lower\<close> works code point by code point on a
  string below 256; on any other string it can change the length (U+0130 becomes two code
  points) and depends on the context (the final sigma), and is the library's.\<close>

definition isspace_cp :: "library \<Rightarrow> nat \<Rightarrow> bool" where
  "isspace_cp lib n = (if n < 256 then isspace_latin1 n else str_isspace lib n)"

definition isalnum_cp :: "library \<Rightarrow> nat \<Rightarrow> bool" where
  "isalnum_cp lib n = (if n < 256 then isalnum_latin1 n else str_isalnum lib n)"

definition lower :: "library \<Rightarrow> str \<Rightarrow> str" where
  "lower lib s = (if list_all (\<lambda>n. n < 256) s then map lower_latin1 s else str_lower lib s)"

text \<open>\<open>s.strip()\<close>: the white space at both ends goes.\<close>

definition strip :: "library \<Rightarrow> str \<Rightarrow> str" where
  "strip lib s = rev (dropWhile (isspace_cp lib) (rev (dropWhile (isspace_cp lib) s)))"

text \<open>\<open>s.isalnum()\<close> is false on the empty string.\<close>

definition isalnum :: "library \<Rightarrow> str \<Rightarrow> bool" where
  "isalnum lib s = (s \<noteq> [] \<and> list_all (isalnum_cp lib) s)"

text \<open>\<open>s.replace(c, '')\<close> for a single character \<open>c\<close>.\<close>

definition remove_char :: "char \<Rightarrow> str \<Rightarrow> str" where
  "remove_char c s = filter (\<lambda>x. x \<noteq> of_char c) s"

text \<open>\<open>s.rsplit('.', 1)\<close> when \<open>'.' in s\<close>: the text before the last dot and the text
  after it; \<open>None\<close> when \<open>s\<close> has no dot. The dot is the code point 46.\<close>

definition rsplit_dot :: "str \<Rightarrow> (str \<times> str) option" where
  "rsplit_dot s =
     (if 46 \<in> set s
      then Some (rev (tl (dropWhile (\<lambda>c. c \<noteq> 46) (rev s))),
                 rev (takeWhile (\<lambda>c. c \<noteq> 46) (rev s)))
      else None)"

text \<open>\<open>str(n)\<close> for a natural number; the digit \<open>d\<close> is the code point \<open>48 + d\<close>.\<close>

definition digit_char :: "nat \<Rightarrow> nat" where
  "digit_char d = 48 + d"

function str_nat :: "nat \<Rightarrow> str" where
  "str_nat n = (if n < 10 then [digit_char n] else str_nat (n div 10) @ [digit_char (n mod 10)])"
  by pat_completeness auto
termination
  by (relation "measure (\<lambda>n. n)") auto

declare str_nat.simps [simp del]

text \<open>The double quote, which the messages of the service contain.\<close>

definition dq :: str where
  "dq = [34]"

section \<open>Bucket names\<close>

text \<open>\<open>is_valid_bucket_name\<close> returns the verdict and its message.\<close>

definition is_valid_bucket_name :: "library \<Rightarrow> str \<Rightarrow> bool \<times> str" where
  "is_valid_bucket_name lib name =
     (if name = [] \<or> length name < 3 then (False, lit ''Name must be at least 3 characters'')
      else if length name > 50 then (False, lit ''Name too long (max 50 characters)'')
      else if \<not> isalnum lib (remove_char CHR ''_'' (remove_char CHR ''-'' name))
        then (False, lit ''Only letters, numbers, dash and underscore allowed'')
      else (True, lit ''Valid name''))"

section \<open>File extensions and sizes\<close>

definition ALLOWED_EXTENSIONS :: "str set" where
  "ALLOWED_EXTENSIONS =
     lit ` {''txt'', ''pdf'', ''png'', ''jpg'', ''jpeg'', ''gif'', ''bmp'', ''svg'', ''webp''}"

definition allowed_file :: "library \<Rightarrow> str \<Rightarrow> bool" where
  "allowed_file lib filename =
     (case rsplit_dot filename of
        None \<Rightarrow> False
      | Some (stem, ext) \<Rightarrow> lower lib ext \<in> ALLOWED_EXTENSIONS)"

text \<open>
  \<open>format_file_size\<close> divides a float by \<open>1024.0\<close>, at most three times, and prints it
  with \<open>:.1f\<close>. Dividing a float by a power of two is exact and an integer below
  \<open>2 ^ 53\<close> is a float, so the model computes in the rationals; it is the code for
  sizes below \<open>2 ^ 53\<close> bytes. \<open>:.1f\<close> prints the decimal with one digit after the
  point that is nearest to the exact value, the even one of two equally near.
\<close>

definition size_names :: "str list" where
  "size_names = [lit ''B'', lit ''KB'', lit ''MB'', lit ''GB'']"

function scale_size :: "rat \<Rightarrow> nat \<Rightarrow> rat \<times> nat" where
  "scale_size size_bytes i =
     (if size_bytes \<ge> 1024 \<and> i < length size_names - 1
      then scale_size (size_bytes / 1024) (i + 1)
      else (size_bytes, i))"
  by pat_completeness auto
termination
  by (relation "measure (\<lambda>(s, i). length size_names - 1 - i)") auto

declare scale_size.simps [simp del]

definition round_half_even :: "rat \<Rightarrow> int" where
  "round_half_even x =
     (let f = \<lfloor>x\<rfloor>; r = x - of_int f
      in if r < 1 / 2 then f else if r > 1 / 2 then f + 1 else if even f then f else f + 1)"

definition format_1f :: "rat \<Rightarrow> str" where
  "format_1f x =
     (let t = nat (round_half_even (x * 10))
      in str_nat (t div 10) @ lit ''.'' @ str_nat (t mod 10))"

definition format_file_size :: "nat \<Rightarrow> str" where
  "format_file_size size_bytes =
     (if size_bytes = 0 then lit ''0 B''
      else (case scale_size (of_nat size_bytes) 0 of
              (s, i) \<Rightarrow> format_1f s @ lit '' '' @ size_names ! i))"

section \<open>Time stamps\<close>

text \<open>A \<open>datetime\<close>, as \<open>datetime.now()\<close> and \<open>datetime.fromtimestamp\<close> return it. The
  year is printed with four digits, which is \<open>%Y\<close> for the years 1000 to 9999.\<close>

record datetime =
  dt_year :: nat
  dt_month :: nat
  dt_day :: nat
  dt_hour :: nat
  dt_minute :: nat
  dt_second :: nat

definition zfill :: "nat \<Rightarrow> str \<Rightarrow> str" where
  "zfill w s = replicate (w - length s) 48 @ s"

text \<open>\<open>strftime('%Y%m%d_%H%M%S')\<close>\<close>

definition strftime_compact :: "datetime \<Rightarrow> str" where
  "strftime_compact t =
     zfill 4 (str_nat (dt_year t)) @ zfill 2 (str_nat (dt_month t)) @ zfill 2 (str_nat (dt_day t))
     @ lit ''_'' @
     zfill 2 (str_nat (dt_hour t)) @ zfill 2 (str_nat (dt_minute t)) @ zfill 2 (str_nat (dt_second t))"

text \<open>\<open>strftime('%Y-%m-%d %H:%M:%S')\<close>\<close>

definition strftime_iso :: "datetime \<Rightarrow> str" where
  "strftime_iso t =
     zfill 4 (str_nat (dt_year t)) @ lit ''-'' @ zfill 2 (str_nat (dt_month t)) @ lit ''-'' @
     zfill 2 (str_nat (dt_day t)) @ lit '' '' @
     zfill 2 (str_nat (dt_hour t)) @ lit '':'' @ zfill 2 (str_nat (dt_minute t)) @ lit '':'' @
     zfill 2 (str_nat (dt_second t))"

section \<open>The storage directory\<close>

text \<open>
  \<open>STORAGE_PATH\<close> holds one directory for each bucket. A bucket directory holds regular
  files, each with its bytes and its modification time, and possibly subdirectories.
  A directory is the list of its entries in the order in which \<open>iterdir\<close> yields them;
  a name is looked up with \<^const>\<open>map_of\<close>. \<open>rmdir\<close>, \<open>unlink\<close> and the reads fail where
  the state of the directories makes them fail (a directory that is not empty, a
  directory in the place of a file, a missing path). A write fails there too, and also
  when the operating system refuses it for a reason that the directories do not show (a
  name longer than the file system allows, a full disk, a missing permission): that
  fault comes with the file of the request.
\<close>

datatype entry = File string datetime | SubDir

type_synonym directory = "(str \<times> entry) list"

type_synonym filesystem = "(str \<times> directory) list"

fun is_file :: "entry \<Rightarrow> bool" where
  "is_file (File c m) = True"
| "is_file SubDir = False"

text \<open>\<open>(STORAGE_PATH / bucket_name).exists()\<close>\<close>

definition folder_exists :: "filesystem \<Rightarrow> str \<Rightarrow> bool" where
  "folder_exists fs bucket_name = (map_of fs bucket_name \<noteq> None)"

text \<open>\<open>(STORAGE_PATH / bucket_name).mkdir(exist_ok=True)\<close>\<close>

definition mkdir_exist_ok :: "filesystem \<Rightarrow> str \<Rightarrow> filesystem" where
  "mkdir_exist_ok fs bucket_name =
     (if folder_exists fs bucket_name then fs else AList.update bucket_name [] fs)"

text \<open>\<open>folder_path.iterdir()\<close> of a directory that exists.\<close>

definition iterdir :: "filesystem \<Rightarrow> str \<Rightarrow> directory" where
  "iterdir fs bucket_name = (case map_of fs bucket_name of None \<Rightarrow> [] | Some d \<Rightarrow> d)"

text \<open>\<open>folder_path.rmdir()\<close>\<close>

definition rmdir :: "filesystem \<Rightarrow> str \<Rightarrow> os_error + filesystem" where
  "rmdir fs bucket_name =
     (case map_of fs bucket_name of
        None \<Rightarrow> Inl ENOENT
      | Some d \<Rightarrow> if d = [] then Inr (AList.delete bucket_name fs) else Inl ENOTEMPTY)"

text \<open>\<open>(bucket_folder / filename).exists()\<close>\<close>

definition path_exists :: "filesystem \<Rightarrow> str \<Rightarrow> str \<Rightarrow> bool" where
  "path_exists fs bucket_name filename = (map_of (iterdir fs bucket_name) filename \<noteq> None)"

text \<open>\<open>file.save(str(file_path))\<close>: unless the operating system refuses the write with
  \<open>fault\<close>, or a directory stands at the path, the bytes are written to the path, over a
  regular file that is there; the modification time is the time of the write.\<close>

definition save ::
  "filesystem \<Rightarrow> str \<Rightarrow> str \<Rightarrow> string \<Rightarrow> datetime \<Rightarrow> os_error option \<Rightarrow> os_error + filesystem" where
  "save fs bucket_name filename bytes now fault =
     (case fault of
        Some e \<Rightarrow> Inl e
      | None \<Rightarrow>
          (case map_of fs bucket_name of
             None \<Rightarrow> Inl ENOENT
           | Some d \<Rightarrow>
               (case map_of d filename of
                  Some SubDir \<Rightarrow> Inl EISDIR
                | _ \<Rightarrow> Inr (AList.update bucket_name (AList.update filename (File bytes now) d) fs))))"


text \<open>\<open>str(STORAGE_PATH / bucket_name)\<close> and \<open>str(STORAGE_PATH / bucket_name / filename)\<close>\<close>

definition folder_path_str :: "str \<Rightarrow> str" where
  "folder_path_str bucket_name = lit ''storage/buckets/'' @ bucket_name"

definition file_path_str :: "str \<Rightarrow> str \<Rightarrow> str" where
  "file_path_str bucket_name filename = folder_path_str bucket_name @ lit ''/'' @ filename"

section \<open>File information\<close>

record file_info =
  fi_name :: str
  fi_size :: nat
  fi_size_formatted :: str
  fi_modified :: str
  fi_type :: str
  fi_extension :: str
  fi_error :: "str option"

text \<open>\<open>file_path.suffix\<close>: the last dot of the name and what follows it, when that dot
  is neither the first nor the last character of the name.\<close>

definition suffix_of :: "str \<Rightarrow> str" where
  "suffix_of name =
     (case rsplit_dot name of
        None \<Rightarrow> []
      | Some (stem, ext) \<Rightarrow> if stem \<noteq> [] \<and> ext \<noteq> [] then lit ''.'' @ ext else [])"

text \<open>\<open>mime_type or 'unknown'\<close>\<close>

definition mime_or_unknown :: "str option \<Rightarrow> str" where
  "mime_or_unknown m =
     (case m of None \<Rightarrow> lit ''unknown'' | Some t \<Rightarrow> if t = [] then lit ''unknown'' else t)"

text \<open>\<open>get_file_info\<close>. The routes call it on regular files only (after \<open>is_file\<close>, or
  after a write that succeeded); on every other path the model takes the branch of the
  exception, as for a path that does not exist.\<close>

definition get_file_info :: "library \<Rightarrow> filesystem \<Rightarrow> str \<Rightarrow> str \<Rightarrow> file_info" where
  "get_file_info lib fs bucket_name filename =
     (case map_of (iterdir fs bucket_name) filename of
        Some (File bytes mtime) \<Rightarrow>
          \<lparr>fi_name = filename,
           fi_size = length bytes,
           fi_size_formatted = format_file_size (length bytes),
           fi_modified = strftime_iso mtime,
           fi_type = mime_or_unknown (guess_type lib (file_path_str bucket_name filename)),
           fi_extension = lower lib (suffix_of filename),
           fi_error = None\<rparr>
      | _ \<Rightarrow>
          \<lparr>fi_name = filename,
           fi_size = 0,
           fi_size_formatted = lit ''0 B'',
           fi_modified = lit ''Unknown'',
           fi_type = lit ''unknown'',
           fi_extension = lower lib (suffix_of filename),
           fi_error = Some (str_oserror lib ENOENT (file_path_str bucket_name filename))\<rparr>)"

section \<open>The bucket table\<close>

text \<open>A row of the table \<open>Bucket\<close>, and the table as the list of its rows in the order
  of insertion. A new row gets the key after the largest one of the table.\<close>

record bucket =
  b_id :: nat
  b_name :: str
  b_created_at :: datetime

type_synonym database = "bucket list"

text \<open>\<open>Bucket.query.filter_by(name=bucket_name).first()\<close>\<close>

definition query_first :: "database \<Rightarrow> str \<Rightarrow> bucket option" where
  "query_first db bucket_name = find (\<lambda>b. b_name b = bucket_name) db"

definition next_id :: "database \<Rightarrow> nat" where
  "next_id db = fold max (map b_id db) 0 + 1"

text \<open>\<open>db.session.add(Bucket(name=bucket_name)); db.session.commit()\<close>\<close>

definition db_add :: "database \<Rightarrow> str \<Rightarrow> datetime \<Rightarrow> bucket \<times> database" where
  "db_add db bucket_name now =
     (let new_bucket = \<lparr>b_id = next_id db, b_name = bucket_name, b_created_at = now\<rparr>
      in (new_bucket, db @ [new_bucket]))"

text \<open>\<open>db.session.delete(bucket); db.session.commit()\<close>\<close>

definition db_delete :: "database \<Rightarrow> bucket \<Rightarrow> database" where
  "db_delete db b = filter (\<lambda>r. b_id r \<noteq> b_id b) db"

record bucket_dict =
  bd_id :: nat
  bd_name :: str
  bd_created_at :: str

definition to_dict :: "bucket \<Rightarrow> bucket_dict" where
  "to_dict b = \<lparr>bd_id = b_id b, bd_name = b_name b, bd_created_at = strftime_iso (b_created_at b)\<rparr>"

record bucket_info = bucket_dict +
  bi_folder_exists :: bool
  bi_file_count :: nat
  bi_total_size :: str
  bi_folder_path :: str
  bi_files :: "file_info list"

section \<open>Responses\<close>

text \<open>What a route returns: the JSON body with its status code, or the file that
  \<open>send_file\<close> sends. \<open>Failure\<close> is the body \<open>{success: False, error: ...}\<close>.\<close>

datatype response =
    Failure nat str
  | Created str bucket_dict
  | BucketDetail bucket_info
  | Message str
  | Uploaded str "file_info list" "str list option"
  | UploadFailure str "str list"
  | FileList "file_info list" nat
  | SendInline str string
  | SendAttachment str string

fun status :: "response \<Rightarrow> nat" where
  "status (Failure code e) = code"
| "status (Created m b) = 201"
| "status (UploadFailure e es) = 400"
| "status r = 200"


definition bucket_not_found :: "str \<Rightarrow> response" where
  "bucket_not_found bucket_name =
     Failure 404 (lit ''Bucket '' @ dq @ bucket_name @ dq @ lit '' not found'')"


section \<open>Bucket routes\<close>

definition create_bucket_folder :: "filesystem \<Rightarrow> str \<Rightarrow> bool \<times> str \<times> filesystem" where
  "create_bucket_folder fs bucket_name =
     (True, lit ''Folder created at '' @ folder_path_str bucket_name, mkdir_exist_ok fs bucket_name)"

text \<open>\<open>create_bucket\<close>: \<open>data\<close> is the value of the key \<open>name\<close> in the JSON body, \<open>None\<close>
  when the body is empty or has no such key; \<open>now\<close> is the time of the request.\<close>

definition create_bucket ::
  "library \<Rightarrow> datetime \<Rightarrow> str option \<Rightarrow> database \<Rightarrow> filesystem
     \<Rightarrow> response \<times> database \<times> filesystem" where
  "create_bucket lib now data db fs =
     (case data of
        None \<Rightarrow>
          (Failure 400
             (lit ''Please provide bucket name in JSON: {'' @ dq @ lit ''name'' @ dq @ lit '': '' @
              dq @ lit ''bucket-name'' @ dq @ lit ''}''), db, fs)
      | Some name \<Rightarrow>
          (let bucket_name = lower lib (strip lib name)
           in case is_valid_bucket_name lib bucket_name of
                (is_valid, message) \<Rightarrow>
                  if \<not> is_valid then (Failure 400 message, db, fs)
                  else if query_first db bucket_name \<noteq> None
                    then (Failure 409
                            (lit ''Bucket '' @ dq @ bucket_name @ dq @ lit '' already exists''),
                          db, fs)
                  else (case create_bucket_folder fs bucket_name of
                          (folder_success, folder_message, fs') \<Rightarrow>
                            if \<not> folder_success then (Failure 500 folder_message, db, fs')
                            else (case db_add db bucket_name now of
                                    (new_bucket, db') \<Rightarrow>
                                      (Created
                                         (lit ''Bucket '' @ dq @ bucket_name @ dq @
                                          lit '' created successfully'')
                                         (to_dict new_bucket), db', fs')))))"

definition regular_files :: "filesystem \<Rightarrow> str \<Rightarrow> str list" where
  "regular_files fs bucket_name = map fst (filter (\<lambda>(n, e). is_file e) (iterdir fs bucket_name))"


definition delete_bucket ::
  "library \<Rightarrow> database \<Rightarrow> filesystem \<Rightarrow> str \<Rightarrow> response \<times> database \<times> filesystem" where
  "delete_bucket lib db fs bucket_name =
     (case query_first db bucket_name of
        None \<Rightarrow> (bucket_not_found bucket_name, db, fs)
      | Some b \<Rightarrow>
          (let deleted =
                 Message (lit ''Bucket '' @ dq @ bucket_name @ dq @ lit '' deleted successfully'')
           in if folder_exists fs bucket_name
              then (let files = regular_files fs bucket_name
                    in if files \<noteq> []
                       then (Failure 400
                               (lit ''Bucket has '' @ str_nat (length files) @
                                lit '' files. Delete files first.''),
                             db, fs)
                       else (case rmdir fs bucket_name of
                               Inl e \<Rightarrow>
                                 (Failure 500
                                    (lit ''Error deleting folder: '' @
                                     str_oserror lib e (folder_path_str bucket_name)), db, fs)
                             | Inr fs' \<Rightarrow> (deleted, db_delete db b, fs')))
              else (deleted, db_delete db b, fs)))"

section \<open>File routes\<close>

text \<open>A file of the request, as \<open>request.files.getlist('files')\<close> yields it: the name
  the client gave and the bytes; and what the machine does while the server handles this
  file: the reading of the clock (\<open>datetime.now()\<close>, also the modification time of what
  is written) and the fault, if any, with which the operating system refuses the write.\<close>

record incoming_file =
  filename :: str
  payload :: string
  clock :: datetime
  write_fault :: "os_error option"

text \<open>The name for an upload whose name is taken: the time stamp goes before the
  extension.\<close>

definition timestamped :: "str \<Rightarrow> datetime \<Rightarrow> str" where
  "timestamped fname now =
     (case (case rsplit_dot fname of Some p \<Rightarrow> p | None \<Rightarrow> (fname, [])) of
        (name, ext) \<Rightarrow>
          (let timestamp = strftime_compact now
           in if ext \<noteq> [] then name @ lit ''_'' @ timestamp @ lit ''.'' @ ext
              else name @ lit ''_'' @ timestamp))"

definition target_name :: "filesystem \<Rightarrow> str \<Rightarrow> str \<Rightarrow> datetime \<Rightarrow> str" where
  "target_name fs bucket_name fname now =
     (if path_exists fs bucket_name fname then timestamped fname now else fname)"

text \<open>One turn of the loop over the files, on the directories, the list
  \<open>uploaded_files\<close> and the list \<open>errors\<close>.\<close>

definition upload_step ::
  "library \<Rightarrow> str \<Rightarrow> incoming_file \<Rightarrow> filesystem \<times> file_info list \<times> str list
     \<Rightarrow> filesystem \<times> file_info list \<times> str list" where
  "upload_step lib bucket_name file st =
     (case st of
        (fs, uploaded_files, errors) \<Rightarrow>
          if filename file = [] then st
          else if \<not> allowed_file lib (filename file)
            then (fs, uploaded_files, errors @ [lit ''File type not allowed: '' @ filename file])
          else (let fname = secure_filename lib (filename file)
                in if fname = []
                   then (fs, uploaded_files, errors @ [lit ''Invalid filename: '' @ filename file])
                   else (let fname' = target_name fs bucket_name fname (clock file)
                         in case save fs bucket_name fname' (payload file) (clock file)
                                   (write_fault file) of
                              Inr fs' \<Rightarrow>
                                (fs', uploaded_files @ [get_file_info lib fs' bucket_name fname'], errors)
                            | Inl e \<Rightarrow>
                                (fs, uploaded_files,
                                 errors @ [lit ''Failed to save '' @ fname' @ lit '': '' @
                                           str_oserror lib e (file_path_str bucket_name fname')]))))"

fun upload_loop ::
  "library \<Rightarrow> str \<Rightarrow> incoming_file list \<Rightarrow> filesystem \<times> file_info list \<times> str list
     \<Rightarrow> filesystem \<times> file_info list \<times> str list" where
  "upload_loop lib bucket_name [] st = st"
| "upload_loop lib bucket_name (file # files) st =
     upload_loop lib bucket_name files (upload_step lib bucket_name file st)"

text \<open>\<open>upload_file\<close>: \<open>files\<close> is \<open>request.files.getlist('files')\<close>, empty when the
  request has no field \<open>files\<close>.\<close>

definition upload_file ::
  "library \<Rightarrow> database \<Rightarrow> filesystem \<Rightarrow> str \<Rightarrow> incoming_file list \<Rightarrow> response \<times> filesystem" where
  "upload_file lib db fs bucket_name files =
     (case query_first db bucket_name of
        None \<Rightarrow> (bucket_not_found bucket_name, fs)
      | Some b \<Rightarrow>
          if files = [] then (Failure 400 (lit ''No files provided''), fs)
          else if list_all (\<lambda>f. filename f = []) files
            then (Failure 400 (lit ''No files selected''), fs)
          else (case upload_loop lib bucket_name files (mkdir_exist_ok fs bucket_name, [], []) of
                  (fs', uploaded_files, errors) \<Rightarrow>
                    if uploaded_files \<noteq> []
                    then (Uploaded
                            (lit ''Uploaded '' @ str_nat (length uploaded_files) @
                             lit '' file(s) successfully'')
                            uploaded_files (if errors \<noteq> [] then Some errors else None), fs')
                    else (UploadFailure (lit ''No files were uploaded successfully'') errors, fs')))"







section \<open>The words of the specification\<close>

text \<open>A valid name in the words of the specification: 3 to 50 characters, each a
  letter, a digit, a dash or an underscore.\<close>

definition valid_name_spec :: "library \<Rightarrow> str \<Rightarrow> bool" where
  "valid_name_spec lib s =
     (3 \<le> length s \<and> length s \<le> 50 \<and>
      (\<forall>c \<in> set s. isalnum_cp lib c \<or> c = of_char CHR ''-'' \<or> c = of_char CHR ''_''))"


text \<open>Every name of the table is a name that trimming and lower case leave as it is.\<close>

definition names_normalised :: "library \<Rightarrow> database \<Rightarrow> bool" where
  "names_normalised lib db = (\<forall>b \<in> set db. lower lib (strip lib (b_name b)) = b_name b)"

text \<open>A file of an upload fails, on given directories: its name is empty, its extension
  is missing or not allowed, its sanitized name is empty, or the write fails.\<close>

definition rejected :: "library \<Rightarrow> filesystem \<Rightarrow> str \<Rightarrow> incoming_file \<Rightarrow> bool" where
  "rejected lib fs bucket_name file =
     (filename file = [] \<or> \<not> allowed_file lib (filename file) \<or>
      secure_filename lib (filename file) = [] \<or>
      isl (save fs bucket_name
             (target_name fs bucket_name (secure_filename lib (filename file)) (clock file))
             (payload file) (clock file) (write_fault file)))"



text \<open>The derived metadata of a regular file, from its name, its bytes and its
  modification time: the name, the number of bytes, that number formatted, the time to
  the second, the guessed content type or \<open>unknown\<close>, and the extension in lower case.\<close>

definition derived_metadata :: "library \<Rightarrow> str \<Rightarrow> str \<Rightarrow> string \<Rightarrow> datetime \<Rightarrow> file_info" where
  "derived_metadata lib bucket_name fname bytes mtime =
     \<lparr>fi_name = fname,
      fi_size = length bytes,
      fi_size_formatted = format_file_size (length bytes),
      fi_modified = strftime_iso mtime,
      fi_type =
        (case guess_type lib (lit ''storage/buckets/'' @ bucket_name @ lit ''/'' @ fname) of
           Some (c # t) \<Rightarrow> c # t
         | _ \<Rightarrow> lit ''unknown''),
      fi_extension = lower lib (suffix_of fname),
      fi_error = None\<rparr>"

text \<open>A library for the examples. Its sanitizer keeps the letters, the digits, the dot,
  the dash and the underscore of a name; it knows no content type and has one text for
  every exception. From 256 on, its tables are those of Python on the code points that
  the examples use: U+0130 and U+2102 are upper-case letters, U+0307 is not alphanumeric,
  none of them is white space, and \<open>lower\<close> turns U+0130 into \<open>i\<close> and U+0307 and leaves
  U+2102 as it is.\<close>

definition example_library :: library where
  "example_library =
     \<lparr>str_isspace = (\<lambda>n. False),
      str_isalnum = (\<lambda>n. n = 0x130 \<or> n = 0x2102),
      str_isupper = (\<lambda>n. n = 0x130 \<or> n = 0x2102),
      str_lower = (\<lambda>s. concat (map (\<lambda>n. if n = 0x130 then [105, 0x307] else [lower_latin1 n]) s)),
      secure_filename = filter (\<lambda>c. isalnum_latin1 c \<or> c \<in> set (lit ''._-'')),
      guess_type = (\<lambda>p. None),
      str_oserror = (\<lambda>e p. lit ''OSError'')\<rparr>"

definition example_time :: datetime where
  "example_time = \<lparr>dt_year = 2024, dt_month = 1, dt_day = 2, dt_hour = 3, dt_minute = 4, dt_second = 5\<rparr>"

section \<open>Sizes\<close>

lemma str_nat_digit: "n < 10 \<Longrightarrow> str_nat n = [digit_char n]"
  by (simp add: str_nat.simps)

lemma round_half_even_of_int: "round_half_even (of_int k) = k"
  by (simp add: round_half_even_def)

text \<open>\<^const>\<open>round_half_even\<close> yields a nearest integer.\<close>

lemma round_half_even_near: "\<bar>of_int (round_half_even x) - x\<bar> \<le> 1 / 2"
  unfolding round_half_even_def Let_def
  by (auto simp: abs_if not_less) linarith+

lemma format_1f_of_nat: "format_1f (of_nat n) = str_nat n @ lit ''.0''"
proof -
  have "(of_nat n :: rat) * 10 = of_int (int n * 10)" by simp
  then have "round_half_even (of_nat n * 10) = int n * 10"
    using round_half_even_of_int by metis
  then show ?thesis
    by (simp add: format_1f_def str_nat_digit digit_char_def nat_mult_distrib lit_def)
qed

lemma rat_of_nat_le: "(numeral k :: nat) \<le> n \<Longrightarrow> (numeral k :: rat) \<le> of_nat n"
  by (metis of_nat_le_iff of_nat_numeral)

lemma rat_of_nat_less: "n < (numeral k :: nat) \<Longrightarrow> (of_nat n :: rat) < numeral k"
  by (metis of_nat_less_iff of_nat_numeral)

lemma scale_size_step: "1024 \<le> s \<Longrightarrow> i < 3 \<Longrightarrow> scale_size s i = scale_size (s / 1024) (Suc i)"
  by (subst scale_size.simps) (simp add: size_names_def)

lemma scale_size_stop: "s < 1024 \<or> 3 \<le> i \<Longrightarrow> scale_size s i = (s, i)"
  by (subst scale_size.simps) (auto simp: size_names_def)

lemma scale_size_B: "s < 1024 \<Longrightarrow> scale_size s 0 = (s, 0)"
  by (simp add: scale_size_stop)

lemma scale_size_KB:
  assumes "1024 \<le> s" and "s < 1024 ^ 2"
  shows "scale_size s 0 = (s / 1024, 1)"
proof -
  have "s / 1024 < 1024" using assms(2) by simp
  then show ?thesis using assms(1) by (simp add: scale_size_step scale_size_stop)
qed

lemma scale_size_MB:
  assumes "1024 ^ 2 \<le> s" and "s < 1024 ^ 3"
  shows "scale_size s 0 = (s / 1024 ^ 2, 2)"
proof -
  have a: "1024 \<le> s" and b: "1024 \<le> s / 1024" and c: "s / 1024 / 1024 < 1024"
    using assms by simp_all
  have "scale_size s 0 = scale_size (s / 1024) (Suc 0)"
    using a by (rule scale_size_step) simp
  also have "\<dots> = scale_size (s / 1024 / 1024) (Suc (Suc 0))"
    using b by (rule scale_size_step) simp
  also have "\<dots> = (s / 1024 / 1024, Suc (Suc 0))"
    using c by (simp add: scale_size_stop)
  finally show ?thesis by (simp add: numeral_2_eq_2)
qed

lemma scale_size_GB:
  assumes "1024 ^ 3 \<le> s"
  shows "scale_size s 0 = (s / 1024 ^ 3, 3)"
proof -
  have a: "1024 \<le> s" and b: "1024 \<le> s / 1024" and c: "1024 \<le> s / 1024 / 1024"
    using assms by simp_all
  have "scale_size s 0 = scale_size (s / 1024) (Suc 0)"
    using a by (rule scale_size_step) simp
  also have "\<dots> = scale_size (s / 1024 / 1024) (Suc (Suc 0))"
    using b by (rule scale_size_step) simp
  also have "\<dots> = scale_size (s / 1024 / 1024 / 1024) (Suc (Suc (Suc 0)))"
    using c by (rule scale_size_step) simp
  also have "\<dots> = (s / 1024 / 1024 / 1024, Suc (Suc (Suc 0)))"
    by (simp add: scale_size_stop)
  finally show ?thesis by (simp add: numeral_3_eq_3)
qed

text \<open>
  C7, as the code has it. The size of a file is printed in the unit \<open>B\<close>, \<open>KB\<close>, \<open>MB\<close>
  or \<open>GB\<close>, the first in which it is below 1024 (\<open>GB\<close> for every larger size), with one
  digit after the point in each unit, bytes included: a size from 1 to 1023 bytes is
  its number followed by \<open>.0 B\<close>, and a file of 5 bytes is listed with \<open>5.0 B\<close>. Only
  the size 0 is printed without a decimal, as \<open>0 B\<close>.
\<close>

theorem format_file_size_scaling:
  assumes "n < 2 ^ 53"
  shows "format_file_size 0 = lit ''0 B'' \<and>
    (0 < n \<and> n < 1024 \<longrightarrow> format_file_size n = str_nat n @ lit ''.0 B'') \<and>
    (1024 \<le> n \<and> n < 1024 ^ 2 \<longrightarrow>
       format_file_size n = format_1f (of_nat n / 1024) @ lit '' KB'') \<and>
    (1024 ^ 2 \<le> n \<and> n < 1024 ^ 3 \<longrightarrow>
       format_file_size n = format_1f (of_nat n / 1024 ^ 2) @ lit '' MB'') \<and>
    (1024 ^ 3 \<le> n \<longrightarrow> format_file_size n = format_1f (of_nat n / 1024 ^ 3) @ lit '' GB'') \<and>
    format_file_size 5 = lit ''5.0 B''"
proof -
  have z: "format_file_size 0 = lit ''0 B''"
    by (simp add: format_file_size_def)
  have b: "format_file_size m = str_nat m @ lit ''.0 B''" if "0 < m" "m < 1024" for m
  proof -
    have "(of_nat m :: rat) < 1024"
      using that(2) rat_of_nat_less by simp
    then have "scale_size (of_nat m) 0 = (of_nat m, 0)"
      by (rule scale_size_B)
    then show ?thesis
      using that by (simp add: format_file_size_def format_1f_of_nat size_names_def lit_def)
  qed
  have k: "format_file_size n = format_1f (of_nat n / 1024) @ lit '' KB''"
    if "1024 \<le> n" "n < 1024 ^ 2"
  proof -
    have "(1024 :: rat) \<le> of_nat n" "(of_nat n :: rat) < 1024 ^ 2"
      using that rat_of_nat_le rat_of_nat_less by simp_all
    then have "scale_size (of_nat n) 0 = (of_nat n / 1024, 1)"
      by (rule scale_size_KB)
    then show ?thesis
      using that by (simp add: format_file_size_def size_names_def lit_def)
  qed
  have m: "format_file_size n = format_1f (of_nat n / 1024 ^ 2) @ lit '' MB''"
    if "1024 ^ 2 \<le> n" "n < 1024 ^ 3"
  proof -
    have "(1024 ^ 2 :: rat) \<le> of_nat n" "(of_nat n :: rat) < 1024 ^ 3"
      using that rat_of_nat_le rat_of_nat_less by simp_all
    then have "scale_size (of_nat n) 0 = (of_nat n / 1024 ^ 2, 2)"
      by (rule scale_size_MB)
    then show ?thesis
      using that by (simp add: format_file_size_def size_names_def lit_def)
  qed
  have g: "format_file_size n = format_1f (of_nat n / 1024 ^ 3) @ lit '' GB''"
    if "1024 ^ 3 \<le> n"
  proof -
    have "(1024 ^ 3 :: rat) \<le> of_nat n"
      using that rat_of_nat_le by simp
    then have "scale_size (of_nat n) 0 = (of_nat n / 1024 ^ 3, 3)"
      by (rule scale_size_GB)
    then show ?thesis
      using that by (simp add: format_file_size_def size_names_def lit_def)
  qed
  have five: "format_file_size 5 = lit ''5.0 B''"
    using b [of 5] by (simp add: str_nat_digit digit_char_def lit_def)
  from z b k m g five show ?thesis by blast
qed

theorem format_file_size_scaling_witness:
  "(1536 :: nat) < 2 ^ 53 \<and> format_file_size 1536 = lit ''1.5 KB'' \<and>
   format_file_size 5 = lit ''5.0 B''"
proof -
  have "format_1f (of_nat 1536 / 1024) = lit ''1.5''"
    by (simp add: format_1f_def round_half_even_def str_nat_digit digit_char_def lit_def)
  then show ?thesis
    using format_file_size_scaling [of 1536] by (simp add: lit_def)
qed

theorem format_file_size_five_counterexample:
  "format_file_size 5 \<noteq> lit ''5 B''"
  by (simp add: format_file_size_def scale_size_B format_1f_of_nat [of 5, simplified]
      size_names_def str_nat_digit digit_char_def lit_def)

section \<open>Validation of names\<close>

lemma remove_dash_underscore_empty:
  "set name \<subseteq> {of_char CHR ''-'', of_char CHR ''_''} \<Longrightarrow>
   remove_char CHR ''_'' (remove_char CHR ''-'' name) = []"
  by (auto simp: remove_char_def filter_empty_conv)

text \<open>
  C6, as the code has it. A name of 3 to 50 characters that consists of dashes and
  underscores only is rejected: what is left after the dashes and the underscores are
  removed is the empty string, which \<open>isalnum\<close> does not accept, and the validation
  answers with the message on the allowed characters.
\<close>

theorem only_dashes_rejected:
  assumes "3 \<le> length name" and "length name \<le> 50"
    and "set name \<subseteq> {of_char CHR ''-'', of_char CHR ''_''}"
  shows "is_valid_bucket_name lib name =
           (False, lit ''Only letters, numbers, dash and underscore allowed'')"
proof -
  have "\<not> isalnum lib (remove_char CHR ''_'' (remove_char CHR ''-'' name))"
    using assms(3) by (simp add: remove_dash_underscore_empty isalnum_def)
  moreover have "name \<noteq> []" using assms(1) by auto
  ultimately show ?thesis
    using assms(1,2) by (simp add: is_valid_bucket_name_def)
qed

theorem only_dashes_rejected_witness:
  "is_valid_bucket_name example_library (lit ''-_-'') =
     (False, lit ''Only letters, numbers, dash and underscore allowed'')"
  using only_dashes_rejected [of "lit ''-_-''" example_library] by (simp add: lit_def)

theorem only_dashes_counterexample:
  "length (lit ''---'') = 3 \<and> set (lit ''---'') = {of_char CHR ''-''} \<and>
   \<not> fst (is_valid_bucket_name example_library (lit ''---''))"
  by (simp add: is_valid_bucket_name_def isalnum_def remove_char_def lit_def)

section \<open>Creating a bucket\<close>

lemma dash_not_alnum:
  "\<not> isalnum_cp lib (of_char CHR ''-'')" "\<not> isalnum_cp lib (of_char CHR ''_'')"
  by (simp_all add: isalnum_cp_def isalnum_latin1_def)

lemma is_valid_iff:
  "fst (is_valid_bucket_name lib s) \<longleftrightarrow>
     valid_name_spec lib s \<and> (\<exists>c \<in> set s. isalnum_cp lib c)"
proof -
  let ?r = "remove_char CHR ''_'' (remove_char CHR ''-'' s)"
  have r: "set ?r = {c \<in> set s. c \<noteq> of_char CHR ''-'' \<and> c \<noteq> of_char CHR ''_''}"
    by (auto simp: remove_char_def)
  have "isalnum lib ?r \<longleftrightarrow>
      (\<forall>c \<in> set s. isalnum_cp lib c \<or> c = of_char CHR ''-'' \<or> c = of_char CHR ''_'') \<and>
      (\<exists>c \<in> set s. isalnum_cp lib c)"
    (is "?l \<longleftrightarrow> ?a \<and> ?e")
  proof
    assume l: ?l
    then have ne: "set ?r \<noteq> {}" and al: "\<forall>c \<in> set ?r. isalnum_cp lib c"
      by (auto simp: isalnum_def list_all_iff)
    from al have ?a unfolding r by blast
    moreover from ne al have ?e unfolding r by blast
    ultimately show "?a \<and> ?e" ..
  next
    assume ae: "?a \<and> ?e"
    then obtain c where c: "c \<in> set s" "isalnum_cp lib c" by blast
    then have "c \<in> set ?r" unfolding r using dash_not_alnum [of lib] by auto
    then have "?r \<noteq> []" by auto
    moreover have "\<forall>c \<in> set ?r. isalnum_cp lib c" unfolding r using ae by blast
    ultimately show ?l by (simp add: isalnum_def list_all_iff)
  qed
  then show ?thesis
    by (auto simp: is_valid_bucket_name_def valid_name_spec_def)
qed

lemma invalid_message:
  "\<not> fst (is_valid_bucket_name lib s) \<Longrightarrow>
   snd (is_valid_bucket_name lib s) \<in>
     {lit ''Name must be at least 3 characters'', lit ''Name too long (max 50 characters)'',
      lit ''Only letters, numbers, dash and underscore allowed''}"
  by (auto simp: is_valid_bucket_name_def split: if_splits)

lemma create_bucket_Some:
  "create_bucket lib now (Some name) db fs =
     (let bn = lower lib (strip lib name);
          nb = \<lparr>b_id = next_id db, b_name = bn, b_created_at = now\<rparr>
      in if \<not> fst (is_valid_bucket_name lib bn)
           then (Failure 400 (snd (is_valid_bucket_name lib bn)), db, fs)
         else if query_first db bn \<noteq> None
           then (Failure 409 (lit ''Bucket '' @ dq @ bn @ dq @ lit '' already exists''), db, fs)
         else (Created (lit ''Bucket '' @ dq @ bn @ dq @ lit '' created successfully'')
                 (to_dict nb),
               db @ [nb], mkdir_exist_ok fs bn))"
  by (cases "is_valid_bucket_name lib (lower lib (strip lib name))")
    (simp add: create_bucket_def create_bucket_folder_def db_add_def Let_def)

text \<open>
  C2. When the name, trimmed and in lower case, is not a valid name in the words of the
  specification (shorter than 3 characters, longer than 50, or with a character that is
  no letter, digit, dash or underscore), \<open>create_bucket\<close> answers 400 with the message of
  the validation, and the table and the directories are what they were.
\<close>

theorem create_bucket_invalid_name:
  assumes "\<not> valid_name_spec lib (lower lib (strip lib name))"
  shows "create_bucket lib now (Some name) db fs =
           (Failure 400 (snd (is_valid_bucket_name lib (lower lib (strip lib name)))), db, fs) \<and>
         snd (is_valid_bucket_name lib (lower lib (strip lib name))) \<in>
           {lit ''Name must be at least 3 characters'', lit ''Name too long (max 50 characters)'',
            lit ''Only letters, numbers, dash and underscore allowed''}"
proof -
  have nv: "\<not> fst (is_valid_bucket_name lib (lower lib (strip lib name)))"
    using assms by (simp add: is_valid_iff)
  then have "create_bucket lib now (Some name) db fs =
           (Failure 400 (snd (is_valid_bucket_name lib (lower lib (strip lib name)))), db, fs)"
    by (simp add: create_bucket_Some Let_def)
  with invalid_message [OF nv] show ?thesis by simp
qed

lemma example_normalise:
  "lower example_library (strip example_library (lit '' My Bucket! '')) = lit ''my bucket!''"
  "lower example_library (strip example_library (lit '' My-Data '')) = lit ''my-data''"
  "lower example_library (strip example_library (lit ''MY-DATA'')) = lit ''my-data''"
  "lower example_library (strip example_library (lit ''---'')) = lit ''---''"
  by (simp_all add: lower_def strip_def isspace_cp_def isspace_latin1_def lower_latin1_def
      isupper_latin1_def lit_def)

theorem create_bucket_invalid_name_witness:
  "create_bucket example_library example_time (Some (lit '' My Bucket! '')) [] [] =
     (Failure 400 (lit ''Only letters, numbers, dash and underscore allowed''), [], [])"
proof -
  have "\<not> valid_name_spec example_library (lit ''my bucket!'')"
    by (simp add: valid_name_spec_def isalnum_cp_def isalnum_latin1_def lit_def)
  moreover have "snd (is_valid_bucket_name example_library (lit ''my bucket!'')) =
      lit ''Only letters, numbers, dash and underscore allowed''"
    by (simp add: is_valid_bucket_name_def isalnum_def remove_char_def isalnum_cp_def
        isalnum_latin1_def lit_def)
  ultimately show ?thesis
    using create_bucket_invalid_name [of example_library "lit '' My Bucket! ''" example_time "[]" "[]"]
    by (simp add: example_normalise)
qed

lemma query_first_append:
  "query_first (db @ [nb]) n =
     (case query_first db n of None \<Rightarrow> (if b_name nb = n then Some nb else None) | Some b \<Rightarrow> Some b)"
  unfolding query_first_def by (induction db) auto

lemma folder_exists_mkdir: "folder_exists (mkdir_exist_ok fs n) n"
  by (simp add: mkdir_exist_ok_def folder_exists_def update_conv')

text \<open>Names of code points below 256.\<close>

lemma alnum_not_space: "isalnum_latin1 c \<Longrightarrow> \<not> isspace_latin1 c"
  unfolding isalnum_latin1_def isspace_latin1_def by arith

lemma alnum_ranges:
  "97 \<le> c \<Longrightarrow> c \<le> 122 \<Longrightarrow> isalnum_latin1 c"
  "216 \<le> c \<Longrightarrow> c \<le> 246 \<Longrightarrow> isalnum_latin1 c"
  "248 \<le> c \<Longrightarrow> c \<le> 255 \<Longrightarrow> isalnum_latin1 c"
  by (simp_all add: isalnum_latin1_def)

lemma lower_latin1_alnum: "isalnum_latin1 c \<Longrightarrow> isalnum_latin1 (lower_latin1 c)"
proof (cases "isupper_latin1 c")
  case True
  then consider "65 \<le> c \<and> c \<le> 90" | "192 \<le> c \<and> c \<le> 214" | "216 \<le> c \<and> c \<le> 222"
    unfolding isupper_latin1_def by blast
  then have "isalnum_latin1 (c + 32)"
  proof cases
    case 1
    then show ?thesis by (intro alnum_ranges(1)) simp_all
  next
    case 2
    then show ?thesis by (intro alnum_ranges(2)) simp_all
  next
    case 3
    then show ?thesis by (intro alnum_ranges(3)) simp_all
  qed
  then show ?thesis using True by (simp add: lower_latin1_def)
next
  case False
  then show "isalnum_latin1 c \<Longrightarrow> ?thesis" by (simp add: lower_latin1_def)
qed

lemma lower_latin1_less: "c < 256 \<Longrightarrow> lower_latin1 c < 256"
  by (auto simp: lower_latin1_def isupper_latin1_def)

lemma lower_latin1_dash:
  "lower_latin1 (of_char CHR ''-'') = of_char CHR ''-''"
  "lower_latin1 (of_char CHR ''_'') = of_char CHR ''_''"
  by (simp_all add: lower_latin1_def isupper_latin1_def)

lemma strip_id:
  assumes "\<forall>c \<in> set s. \<not> isspace_cp lib c"
  shows "strip lib s = s"
proof -
  have "dropWhile (isspace_cp lib) s = s"
    using assms by (cases s) auto
  moreover have "dropWhile (isspace_cp lib) (rev s) = rev s"
    using assms by (cases "rev s") (auto simp: rev_eq_Cons_iff)
  ultimately show ?thesis by (simp add: strip_def)
qed

text \<open>A name of code points below 256 that is valid as the client wrote it is valid
  after the normalization, which only puts its letters in lower case. From 256 on this
  can fail: \<open>lower\<close> can put a character that is not alphanumeric into the name.\<close>

lemma valid_latin1_name_normalised:
  assumes "valid_name_spec lib name" and "\<forall>c \<in> set name. c < 256"
  shows "strip lib name = name \<and> lower lib name = map lower_latin1 name \<and>
         valid_name_spec lib (lower lib (strip lib name)) \<and>
         ((\<exists>c \<in> set name. isalnum_cp lib c) \<longrightarrow>
            (\<exists>c \<in> set (lower lib (strip lib name)). isalnum_cp lib c))"
proof -
  have ok: "\<forall>c \<in> set name. isalnum_latin1 c \<or> c = of_char CHR ''-'' \<or> c = of_char CHR ''_''"
    using assms by (auto simp: valid_name_spec_def isalnum_cp_def)
  have "\<not> isspace_cp lib c" if "c \<in> set name" for c
  proof -
    from ok that consider "isalnum_latin1 c" | "c = of_char CHR ''-''" | "c = of_char CHR ''_''"
      by blast
    then have "\<not> isspace_latin1 c"
      by cases (simp_all add: alnum_not_space, simp_all add: isspace_latin1_def)
    then show ?thesis using assms(2) that by (simp add: isspace_cp_def)
  qed
  then have s: "strip lib name = name" by (intro strip_id) blast
  have l: "lower lib name = map lower_latin1 name"
    using assms(2) by (simp add: lower_def list_all_iff)
  have "isalnum_cp lib (lower_latin1 c) \<or> lower_latin1 c = of_char CHR ''-'' \<or>
        lower_latin1 c = of_char CHR ''_''" if "c \<in> set name" for c
  proof -
    from ok that consider "isalnum_latin1 c" | "c = of_char CHR ''-''" | "c = of_char CHR ''_''"
      by blast
    then show ?thesis
    proof cases
      case 1
      then have "isalnum_latin1 (lower_latin1 c)" by (rule lower_latin1_alnum)
      moreover have "lower_latin1 c < 256" using assms(2) that lower_latin1_less by blast
      ultimately show ?thesis by (simp add: isalnum_cp_def)
    next
      case 2
      then show ?thesis using lower_latin1_dash by simp
    next
      case 3
      then show ?thesis using lower_latin1_dash by simp
    qed
  qed
  then have v: "valid_name_spec lib (lower lib name)"
    using assms(1) by (simp add: valid_name_spec_def l)
  have "\<exists>c \<in> set (lower lib name). isalnum_cp lib c" if "\<exists>c \<in> set name. isalnum_cp lib c"
  proof -
    from that obtain c where c: "c \<in> set name" "isalnum_cp lib c" by blast
    then have "isalnum_latin1 c" using assms(2) by (auto simp: isalnum_cp_def)
    then have "isalnum_latin1 (lower_latin1 c)" by (rule lower_latin1_alnum)
    moreover have "lower_latin1 c < 256" using assms(2) c lower_latin1_less by blast
    ultimately have "isalnum_cp lib (lower_latin1 c)" by (simp add: isalnum_cp_def)
    moreover have "lower_latin1 c \<in> set (lower lib name)" using c by (simp add: l)
    ultimately show ?thesis by blast
  qed
  then show ?thesis using s l v by simp
qed

text \<open>
  C3, as the code has it. For a name whose trimmed form in lower case has 3 to 50
  characters, each a letter, a digit, a dash or an underscore, and at least one of them
  a letter or a digit, and that no row of the table has: \<open>create_bucket\<close> answers 201,
  adds the row with the normalized name and makes the directory; after that, every
  request whose name normalizes to the same name is answered with 409 and changes neither
  the table nor the directories.
\<close>

theorem create_bucket_once:
  fixes name :: str and db :: database and fs :: filesystem and now :: datetime
    and lib :: library
  defines "bn \<equiv> lower lib (strip lib name)"
  defines "nb \<equiv> \<lparr>b_id = next_id db, b_name = bn, b_created_at = now\<rparr>"
  assumes "valid_name_spec lib bn" and "\<exists>c \<in> set bn. isalnum_cp lib c"
    and "query_first db bn = None"
  shows "create_bucket lib now (Some name) db fs =
           (Created (lit ''Bucket '' @ dq @ bn @ dq @ lit '' created successfully'') (to_dict nb),
            db @ [nb], mkdir_exist_ok fs bn) \<and>
         status (fst (create_bucket lib now (Some name) db fs)) = 201 \<and>
         query_first (db @ [nb]) bn = Some nb \<and>
         folder_exists (mkdir_exist_ok fs bn) bn \<and>
         (\<forall>name2 now2. lower lib (strip lib name2) = bn \<longrightarrow>
            create_bucket lib now2 (Some name2) (db @ [nb]) (mkdir_exist_ok fs bn) =
              (Failure 409 (lit ''Bucket '' @ dq @ bn @ dq @ lit '' already exists''),
               db @ [nb], mkdir_exist_ok fs bn))"
proof -
  have v: "fst (is_valid_bucket_name lib bn)"
    using assms(3,4) by (simp add: is_valid_iff)
  have c: "create_bucket lib now (Some name) db fs =
           (Created (lit ''Bucket '' @ dq @ bn @ dq @ lit '' created successfully'') (to_dict nb),
            db @ [nb], mkdir_exist_ok fs bn)"
    using v assms(5) by (simp add: create_bucket_Some Let_def bn_def nb_def)
  have q: "query_first (db @ [nb]) bn = Some nb"
    using assms(5) by (simp add: query_first_append nb_def)
  have d: "create_bucket lib now2 (Some name2) (db @ [nb]) (mkdir_exist_ok fs bn) =
              (Failure 409 (lit ''Bucket '' @ dq @ bn @ dq @ lit '' already exists''),
               db @ [nb], mkdir_exist_ok fs bn)"
    if "lower lib (strip lib name2) = bn" for name2 now2
    using that v q by (simp add: create_bucket_Some Let_def)
  from c q d folder_exists_mkdir show ?thesis by simp
qed

lemma example_iso_time: "strftime_iso example_time = lit ''2024-01-02 03:04:05''"
  by (simp add: strftime_iso_def example_time_def zfill_def str_nat.simps digit_char_def lit_def)

theorem create_bucket_once_witness:
  "create_bucket example_library example_time (Some (lit '' My-Data '')) [] [] =
     (Created (lit ''Bucket '' @ dq @ lit ''my-data'' @ dq @ lit '' created successfully'')
        \<lparr>bd_id = 1, bd_name = lit ''my-data'', bd_created_at = lit ''2024-01-02 03:04:05''\<rparr>,
      [\<lparr>b_id = 1, b_name = lit ''my-data'', b_created_at = example_time\<rparr>],
      [(lit ''my-data'', [])]) \<and>
   create_bucket example_library example_time (Some (lit ''MY-DATA''))
       [\<lparr>b_id = 1, b_name = lit ''my-data'', b_created_at = example_time\<rparr>]
       [(lit ''my-data'', [])] =
     (Failure 409 (lit ''Bucket '' @ dq @ lit ''my-data'' @ dq @ lit '' already exists''),
      [\<lparr>b_id = 1, b_name = lit ''my-data'', b_created_at = example_time\<rparr>],
      [(lit ''my-data'', [])])"
proof -
  have v: "valid_name_spec example_library (lit ''my-data'')"
    "\<exists>c \<in> set (lit ''my-data''). isalnum_cp example_library c"
    by (simp_all add: valid_name_spec_def isalnum_cp_def isalnum_latin1_def lit_def)
  show ?thesis
    using create_bucket_once [of example_library "lit '' My-Data ''" "[]" example_time "[]"] v
    by (simp add: example_normalise example_iso_time query_first_def next_id_def to_dict_def
        mkdir_exist_ok_def folder_exists_def)
qed

theorem create_bucket_once_counterexample:
  "valid_name_spec example_library (lit ''---'') \<and> query_first [] (lit ''---'') = None \<and>
   create_bucket example_library example_time (Some (lit ''---'')) [] [] =
     (Failure 400 (lit ''Only letters, numbers, dash and underscore allowed''), [], [])"
proof -
  have "valid_name_spec example_library (lit ''---'')"
    by (simp add: valid_name_spec_def lit_def)
  moreover have "is_valid_bucket_name example_library (lit ''---'') =
      (False, lit ''Only letters, numbers, dash and underscore allowed'')"
    by (simp add: is_valid_bucket_name_def isalnum_def remove_char_def lit_def)
  ultimately show ?thesis
    by (simp add: create_bucket_Some example_normalise query_first_def)
qed

text \<open>A name from 256 on that is valid as the client wrote it and is refused: the
  capital I with a dot, \<open>a\<close>, \<open>b\<close>. In lower case it has four characters, and the second,
  U+0307, is not alphanumeric.\<close>

lemma capital_i_with_dot_refused:
  "valid_name_spec example_library [0x130, 97, 98] \<and>
   lower example_library (strip example_library [0x130, 97, 98]) = [105, 0x307, 97, 98] \<and>
   create_bucket example_library example_time (Some [0x130, 97, 98]) [] [] =
     (Failure 400 (lit ''Only letters, numbers, dash and underscore allowed''), [], [])"
proof -
  have v: "valid_name_spec example_library [0x130, 97, 98]"
    by (simp add: valid_name_spec_def isalnum_cp_def isalnum_latin1_def example_library_def)
  have l: "lower example_library (strip example_library [0x130, 97, 98]) = [105, 0x307, 97, 98]"
    by (simp add: lower_def strip_def isspace_cp_def isspace_latin1_def lower_latin1_def
        isupper_latin1_def example_library_def)
  have "is_valid_bucket_name example_library [105, 0x307, 97, 98] =
      (False, lit ''Only letters, numbers, dash and underscore allowed'')"
    by (simp add: is_valid_bucket_name_def isalnum_def remove_char_def isalnum_cp_def
        isalnum_latin1_def example_library_def)
  then show ?thesis
    using v l by (simp add: create_bucket_Some)
qed

section \<open>Looking a bucket up\<close>

text \<open>\<open>strip\<close> takes white space from both ends of the name, and nothing else.\<close>

lemma rev_split: "xs = rev (dropWhile P (rev xs)) @ rev (takeWhile P (rev xs))"
  by (metis rev_append rev_rev_ident takeWhile_dropWhile_id)


lemma strip_ends:
  assumes "strip lib s \<noteq> []"
  shows "\<not> isspace_cp lib (hd (strip lib s)) \<and> \<not> isspace_cp lib (last (strip lib s))"
proof -
  let ?P = "isspace_cp lib"
  let ?d = "dropWhile ?P s"
  let ?e = "dropWhile ?P (rev ?d)"
  have e: "?e \<noteq> []" using assms by (simp add: strip_def)
  then have "\<not> ?P (hd ?e)" by (rule hd_dropWhile)
  moreover have "last (strip lib s) = hd ?e"
    using e by (simp add: strip_def last_rev)
  ultimately have l: "\<not> ?P (last (strip lib s))" by simp
  have d: "?d = strip lib s @ rev (takeWhile ?P (rev ?d))"
    unfolding strip_def by (rule rev_split)
  then have "?d \<noteq> []" using assms by (metis append_is_Nil_conv)
  then have "\<not> ?P (hd ?d)" by (rule hd_dropWhile)
  moreover have "hd ?d = hd (strip lib s)"
    using d assms by (metis hd_append2)
  ultimately show ?thesis using l by simp
qed

lemma set_strip: "set (strip lib s) \<subseteq> set s"
  unfolding strip_def by (auto dest!: set_dropWhileD)

text \<open>In lower case a name has no upper-case letter below 256: always when the name is
  below 256, and for every name when the library's \<open>lower\<close> yields none, as Python's
  does.\<close>

lemma lower_latin1_not_upper: "\<not> isupper_latin1 (lower_latin1 c)"
  by (auto simp: lower_latin1_def isupper_latin1_def)




lemma names_normalised_create:
  assumes "names_normalised lib db"
    and "\<forall>name. data = Some name \<longrightarrow>
           lower lib (strip lib (lower lib (strip lib name))) = lower lib (strip lib name)"
  shows "names_normalised lib (fst (snd (create_bucket lib now data db fs)))"
proof (cases data)
  case None
  then show ?thesis using assms by (simp add: create_bucket_def)
next
  case (Some name)
  then show ?thesis
    using assms by (auto simp: create_bucket_Some Let_def names_normalised_def)
qed

lemma names_normalised_delete:
  assumes "names_normalised lib db"
  shows "names_normalised lib (fst (snd (delete_bucket lib db fs n)))"
proof -
  have "names_normalised lib (db_delete db b)" for b
    using assms by (auto simp: names_normalised_def db_delete_def)
  then show ?thesis
    using assms
    by (auto simp: delete_bucket_def Let_def split: option.splits sum.splits)
qed

lemma lower_latin1_space: "isspace_latin1 (lower_latin1 c) \<longleftrightarrow> isspace_latin1 c"
  by (auto simp: lower_latin1_def isupper_latin1_def isspace_latin1_def)

lemma lower_latin1_idem: "lower_latin1 (lower_latin1 c) = lower_latin1 c"
  using lower_latin1_not_upper [of c] by (simp add: lower_latin1_def)

text \<open>On names below 256 the normalization changes nothing the second time.\<close>

lemma normalise_latin1_idem:
  assumes "\<forall>c \<in> set name. c < 256"
  shows "lower lib (strip lib (lower lib (strip lib name))) = lower lib (strip lib name)"
proof -
  let ?s = "strip lib name"
  let ?t = "map lower_latin1 ?s"
  have s256: "\<forall>c \<in> set ?s. c < 256"
    using assms set_strip [of lib name] by blast
  then have l: "lower lib ?s = ?t"
    by (simp add: lower_def list_all_iff)
  have t256: "\<forall>c \<in> set ?t. c < 256"
    using s256 lower_latin1_less by auto
  have sp: "isspace_cp lib (lower_latin1 c) \<longleftrightarrow> isspace_cp lib c" if "c < 256" for c
    using that lower_latin1_less [OF that] by (simp add: isspace_cp_def lower_latin1_space)
  have "strip lib ?t = ?t"
  proof (cases "?s = []")
    case True
    then have "?t = []" by simp
    moreover have "strip lib [] = []" by (simp add: strip_def)
    ultimately show ?thesis by (simp only:)
  next
    case False
    from strip_ends [OF False] have e: "\<not> isspace_cp lib (hd ?s)" "\<not> isspace_cp lib (last ?s)"
      by simp_all
    have "hd ?s \<in> set ?s" "last ?s \<in> set ?s" using False by simp_all
    then have "hd ?s < 256" "last ?s < 256" using s256 by blast+
    then have "\<not> isspace_cp lib (hd ?t)" "\<not> isspace_cp lib (last ?t)"
      using e False sp by (simp_all add: hd_map last_map)
    moreover have "?t \<noteq> []" using False by simp
    ultimately have "dropWhile (isspace_cp lib) ?t = ?t"
      and "dropWhile (isspace_cp lib) (rev ?t) = rev ?t"
      by (simp_all add: dropWhile_eq_self_iff hd_rev)
    then show ?thesis by (simp add: strip_def)
  qed
  moreover have "lower lib ?t = map lower_latin1 ?t"
    using t256 by (simp add: lower_def list_all_iff)
  moreover have "map lower_latin1 ?t = ?t"
    by (simp add: lower_latin1_idem)
  ultimately show ?thesis using l by simp
qed







section \<open>Deleting a bucket\<close>

lemma delete_bucket_Some:
  assumes "query_first db n = Some b" and "map_of fs n = Some d"
  shows "delete_bucket lib db fs n =
     (if filter (\<lambda>(k, e). is_file e) d \<noteq> []
      then (Failure 400
              (lit ''Bucket has '' @ str_nat (length (filter (\<lambda>(k, e). is_file e) d)) @
               lit '' files. Delete files first.''), db, fs)
      else if d \<noteq> []
        then (Failure 500
               (lit ''Error deleting folder: '' @ str_oserror lib ENOTEMPTY (folder_path_str n)),
              db, fs)
      else (Message (lit ''Bucket '' @ dq @ n @ dq @ lit '' deleted successfully''),
            db_delete db b, AList.delete n fs))"
  using assms
  by (simp add: delete_bucket_def folder_exists_def regular_files_def iterdir_def rmdir_def Let_def)

text \<open>
  C1. When the table has a row for the name and the directory of the bucket holds at
  least one regular file, \<open>delete_bucket\<close> answers 400 with the number of the files, and
  returns the table and the directories as they were: the row, the directory and its
  files are untouched.
\<close>

theorem delete_bucket_non_empty:
  assumes "query_first db bucket_name = Some b"
    and "map_of fs bucket_name = Some d"
    and "(fname, File bytes mtime) \<in> set d"
  shows "delete_bucket lib db fs bucket_name =
           (Failure 400
              (lit ''Bucket has '' @ str_nat (length (regular_files fs bucket_name)) @
               lit '' files. Delete files first.''), db, fs) \<and>
         0 < length (regular_files fs bucket_name)"
proof -
  have "(fname, File bytes mtime) \<in> set (filter (\<lambda>(k, e). is_file e) d)"
    using assms(3) by simp
  then have ne: "filter (\<lambda>(k, e). is_file e) d \<noteq> []"
    by (metis empty_iff empty_set)
  have rf: "regular_files fs bucket_name = map fst (filter (\<lambda>(k, e). is_file e) d)"
    using assms(2) by (simp add: regular_files_def iterdir_def)
  show ?thesis
    using ne by (simp add: delete_bucket_Some [OF assms(1,2)] rf)
qed

theorem delete_bucket_non_empty_witness:
  "delete_bucket example_library
     [\<lparr>b_id = 1, b_name = lit ''my-data'', b_created_at = example_time\<rparr>]
     [(lit ''my-data'', [(lit ''notes.txt'', File ''hello'' example_time)])] (lit ''my-data'') =
   (Failure 400 (lit ''Bucket has 1 files. Delete files first.''),
    [\<lparr>b_id = 1, b_name = lit ''my-data'', b_created_at = example_time\<rparr>],
    [(lit ''my-data'', [(lit ''notes.txt'', File ''hello'' example_time)])])"
proof -
  have m: "lit ''Bucket has '' @ str_nat 1 @ lit '' files. Delete files first.'' =
      lit ''Bucket has 1 files. Delete files first.''"
    by (simp add: str_nat_digit digit_char_def lit_def)
  show ?thesis
    using delete_bucket_non_empty
      [of "[\<lparr>b_id = 1, b_name = lit ''my-data'', b_created_at = example_time\<rparr>]"
        "lit ''my-data''" "\<lparr>b_id = 1, b_name = lit ''my-data'', b_created_at = example_time\<rparr>"
        "[(lit ''my-data'', [(lit ''notes.txt'', File ''hello'' example_time)])]"
        "[(lit ''notes.txt'', File ''hello'' example_time)]" "lit ''notes.txt''" "''hello''"
        example_time example_library] m
    by (simp add: query_first_def regular_files_def iterdir_def)
qed

text \<open>
  C9. The test for emptiness of \<open>delete_bucket\<close> counts the regular files only. When the
  table has a row for the name and the directory of the bucket holds no regular file but
  at least one subdirectory, the test passes, \<open>rmdir\<close> fails on the directory that is not
  empty, and \<open>delete_bucket\<close> answers 500 with the text of the exception; the row stays in
  the table and the directories are as they were.
\<close>

theorem delete_bucket_only_subdirectories:
  assumes "query_first db bucket_name = Some b"
    and "map_of fs bucket_name = Some d"
    and "d \<noteq> []" and "\<forall>(k, e) \<in> set d. e = SubDir"
  shows "delete_bucket lib db fs bucket_name =
           (Failure 500
              (lit ''Error deleting folder: '' @
               str_oserror lib ENOTEMPTY (folder_path_str bucket_name)), db, fs) \<and>
         regular_files fs bucket_name = [] \<and>
         rmdir fs bucket_name = Inl ENOTEMPTY"
proof -
  have "\<not> is_file e" if "(k, e) \<in> set d" for k e
    using assms(4) that by auto
  then have e: "filter (\<lambda>(k, e). is_file e) d = []"
    by (auto simp: filter_empty_conv)
  have rf: "regular_files fs bucket_name = []"
    using assms(2) e by (simp add: regular_files_def iterdir_def)
  have rm: "rmdir fs bucket_name = Inl ENOTEMPTY"
    using assms(2,3) by (simp add: rmdir_def)
  show ?thesis
    using e assms(3) rf rm by (simp add: delete_bucket_Some [OF assms(1,2)])
qed

theorem delete_bucket_only_subdirectories_witness:
  "delete_bucket example_library
     [\<lparr>b_id = 1, b_name = lit ''my-data'', b_created_at = example_time\<rparr>]
     [(lit ''my-data'', [(lit ''sub'', SubDir)])] (lit ''my-data'') =
   (Failure 500 (lit ''Error deleting folder: '' @ lit ''OSError''),
    [\<lparr>b_id = 1, b_name = lit ''my-data'', b_created_at = example_time\<rparr>],
    [(lit ''my-data'', [(lit ''sub'', SubDir)])])"
  using delete_bucket_only_subdirectories
     [of "[\<lparr>b_id = 1, b_name = lit ''my-data'', b_created_at = example_time\<rparr>]"
      "lit ''my-data''" "\<lparr>b_id = 1, b_name = lit ''my-data'', b_created_at = example_time\<rparr>"
      "[(lit ''my-data'', [(lit ''sub'', SubDir)])]" "[(lit ''sub'', SubDir)]" example_library]
  by (simp add: query_first_def example_library_def)

section \<open>Writing a file\<close>

lemma save_Inr:
  assumes "save fs b n bytes now fault = Inr fs'"
  shows "fault = None \<and>
         (\<exists>d. map_of fs b = Some d \<and> map_of d n \<noteq> Some SubDir \<and>
              fs' = AList.update b (AList.update n (File bytes now) d) fs)"
  using assms by (auto simp: save_def split: option.splits entry.splits)




lemma iterdir_save:
  assumes "save fs b n bytes now fault = Inr fs'"
  shows "map_of (iterdir fs' b) m = (if m = n then Some (File bytes now) else map_of (iterdir fs b) m)"
proof -
  from save_Inr [OF assms] obtain d where d: "map_of fs b = Some d"
    and fs': "fs' = AList.update b (AList.update n (File bytes now) d) fs" by blast
  have "iterdir fs' b = AList.update n (File bytes now) d"
    by (simp add: fs' iterdir_def update_conv')
  then show ?thesis
    using d by (simp add: iterdir_def update_conv')
qed


lemma save_folder_exists:
  assumes "save fs b n bytes now fault = Inr fs'"
  shows "folder_exists fs' b' \<longleftrightarrow> folder_exists fs b'"
proof -
  from save_Inr [OF assms] obtain d where d: "map_of fs b = Some d"
    and fs': "fs' = AList.update b (AList.update n (File bytes now) d) fs" by blast
  show ?thesis
    using d by (cases "b' = b") (simp_all add: fs' folder_exists_def update_conv')
qed

lemma get_file_info_File:
  assumes "map_of (iterdir fs b) n = Some (File bytes mtime)"
  shows "get_file_info lib fs b n = derived_metadata lib b n bytes mtime"
proof -
  have "mime_or_unknown (guess_type lib (file_path_str b n)) =
      (case guess_type lib (lit ''storage/buckets/'' @ b @ lit ''/'' @ n) of
         Some (c # t) \<Rightarrow> c # t | _ \<Rightarrow> lit ''unknown'')"
    by (simp add: mime_or_unknown_def file_path_str_def folder_path_str_def
        split: option.splits list.splits)
  then show ?thesis
    using assms by (simp add: get_file_info_def derived_metadata_def)
qed

section \<open>Names with a time stamp\<close>













section \<open>One file of an upload\<close>









section \<open>The loop over the files of an upload\<close>

text \<open>The lists \<open>uploaded_files\<close> and \<open>errors\<close> only grow: a turn of the loop, and the
  loop, append to them what they append to empty lists.\<close>

lemma upload_step_acc:
  "upload_step lib b f (fs, ups, errs) =
     (case upload_step lib b f (fs, [], []) of (fs', u, e) \<Rightarrow> (fs', ups @ u, errs @ e))"
  by (simp add: upload_step_def Let_def split: sum.splits)

lemma upload_loop_acc:
  "upload_loop lib b files (fs, ups, errs) =
     (case upload_loop lib b files (fs, [], []) of (fs', u, e) \<Rightarrow> (fs', ups @ u, errs @ e))"
proof (induction files arbitrary: fs ups errs)
  case Nil
  then show ?case by simp
next
  case (Cons f files)
  obtain fs1 u1 e1 where s: "upload_step lib b f (fs, [], []) = (fs1, u1, e1)"
    using prod_cases3 by blast
  obtain fs2 u2 e2 where l: "upload_loop lib b files (fs1, [], []) = (fs2, u2, e2)"
    using prod_cases3 by blast
  have "upload_step lib b f (fs, ups, errs) = (fs1, ups @ u1, errs @ e1)"
    using upload_step_acc [of lib b f fs ups errs] s by simp
  then have "upload_loop lib b (f # files) (fs, ups, errs) = (fs2, (ups @ u1) @ u2, (errs @ e1) @ e2)"
    using Cons.IH [of fs1 "ups @ u1" "errs @ e1"] l by simp
  moreover have "upload_loop lib b (f # files) (fs, [], []) = (fs2, u1 @ u2, e1 @ e2)"
    using Cons.IH [of fs1 u1 e1] l s by simp
  ultimately show ?case by simp
qed

lemma upload_loop_Cons:
  assumes "upload_step lib b f (fs, [], []) = (fs1, u1, e1)"
    and "upload_loop lib b files (fs1, [], []) = (fs2, u2, e2)"
  shows "upload_loop lib b (f # files) (fs, [], []) = (fs2, u1 @ u2, e1 @ e2)"
  using assms upload_loop_acc [of lib b files fs1 u1 e1] by simp

text \<open>One turn of the loop, on empty lists.\<close>

lemma upload_step_rejected:
  assumes "rejected lib fs b f"
  shows "\<exists>e. upload_step lib b f (fs, [], []) = (fs, [], e) \<and>
             length e = (if filename f = [] then 0 else 1)"
  using assms
  by (auto simp: rejected_def upload_step_def Let_def split: sum.splits)



lemma upload_step_stored:
  assumes "\<not> rejected lib fs b f"
  shows "\<exists>fs1. save fs b (target_name fs b (secure_filename lib (filename f)) (clock f))
                  (payload f) (clock f) (write_fault f) = Inr fs1 \<and>
               upload_step lib b f (fs, [], []) =
                 (fs1, [derived_metadata lib b
                          (target_name fs b (secure_filename lib (filename f)) (clock f))
                          (payload f) (clock f)], [])"
proof -
  let ?t = "target_name fs b (secure_filename lib (filename f)) (clock f)"
  from assms obtain fs1 where s: "save fs b ?t (payload f) (clock f) (write_fault f) = Inr fs1"
    by (cases "save fs b ?t (payload f) (clock f) (write_fault f)") (auto simp: rejected_def)
  have "map_of (iterdir fs1 b) ?t = Some (File (payload f) (clock f))"
    using iterdir_save [OF s, of ?t] by simp
  then have "get_file_info lib fs1 b ?t = derived_metadata lib b ?t (payload f) (clock f)"
    by (rule get_file_info_File)
  then show ?thesis
    using assms s by (simp add: rejected_def upload_step_def Let_def)
qed





text \<open>The folder of the bucket stays.\<close>

lemma upload_step_folder:
  assumes "upload_step lib b f (fs, [], []) = (fs1, u1, e1)"
  shows "folder_exists fs1 b \<longleftrightarrow> folder_exists fs b"
proof (cases "rejected lib fs b f")
  case True
  then show ?thesis using upload_step_rejected [OF True] assms by auto
next
  case False
  from upload_step_stored [OF False] assms
  have "save fs b (target_name fs b (secure_filename lib (filename f)) (clock f))
          (payload f) (clock f) (write_fault f) = Inr fs1" by auto
  then show ?thesis by (rule save_folder_exists)
qed





text \<open>The loop, from empty lists.\<close>

lemma upload_loop_folder:
  assumes "upload_loop lib b files (fs, [], []) = (fs', u, e)"
  shows "folder_exists fs' b \<longleftrightarrow> folder_exists fs b"
  using assms
proof (induction files arbitrary: fs fs' u e)
  case Nil
  then show ?case by simp
next
  case (Cons f files)
  obtain fs1 u1 e1 where s: "upload_step lib b f (fs, [], []) = (fs1, u1, e1)"
    using prod_cases3 by blast
  obtain fs2 u2 e2 where l: "upload_loop lib b files (fs1, [], []) = (fs2, u2, e2)"
    using prod_cases3 by blast
  have "fs' = fs2"
    using upload_loop_Cons [OF s l] Cons.prems by simp
  then show ?case
    using Cons.IH [OF l] upload_step_folder [OF s] by simp
qed


lemma upload_loop_all_rejected:
  assumes "\<forall>f \<in> set files. rejected lib fs b f"
  shows "\<exists>e. upload_loop lib b files (fs, [], []) = (fs, [], e)"
  using assms
proof (induction files)
  case Nil
  then show ?case by simp
next
  case (Cons f files)
  from Cons.prems have "rejected lib fs b f" by simp
  from upload_step_rejected [OF this]
  obtain e1 where s: "upload_step lib b f (fs, [], []) = (fs, [], e1)" by blast
  from Cons obtain e2 where l: "upload_loop lib b files (fs, [], []) = (fs, [], e2)" by auto
  show ?case
    using upload_loop_Cons [OF s l] by simp
qed








section \<open>The response of an upload\<close>


lemma update_absent: "map_of al k = None \<Longrightarrow> AList.update k v al = al @ [(k, v)]"
  by (induction al) (auto split: if_splits)

lemma mkdir_absent:
  "\<not> folder_exists fs b \<Longrightarrow> mkdir_exist_ok fs b = fs @ [(b, [])]"
  by (simp add: mkdir_exist_ok_def folder_exists_def update_absent)

lemma upload_file_run:
  assumes "query_first db b = Some r" and "\<exists>f \<in> set files. filename f \<noteq> []"
    and "upload_loop lib b files (mkdir_exist_ok fs b, [], []) = (fs', u, e)"
  shows "upload_file lib db fs b files =
     (if u \<noteq> []
      then (Uploaded (lit ''Uploaded '' @ str_nat (length u) @ lit '' file(s) successfully'') u
              (if e \<noteq> [] then Some e else None), fs')
      else (UploadFailure (lit ''No files were uploaded successfully'') e, fs'))"
proof -
  from assms(2) have "files \<noteq> []" "\<not> list_all (\<lambda>f. filename f = []) files"
    by (auto simp: list_all_iff)
  then show ?thesis
    using assms(1,3) by (simp add: upload_file_def)
qed


lemma lit_append: "lit a @ lit b = lit (a @ b)"
  by (simp add: lit_def)

lemma example_not_allowed: "\<not> allowed_file example_library (lit ''virus.exe'')"
  by (simp add: allowed_file_def rsplit_dot_def ALLOWED_EXTENSIONS_def lower_def
      lower_latin1_def isupper_latin1_def lit_def)





text \<open>
  C10. \<open>upload_file\<close> makes the bucket directory before it looks at a file. For a bucket
  of the table whose directory is missing and a request in which every file is refused
  before the write (empty name, extension missing or not allowed, empty sanitized name),
  with at least one name that is not empty: the response is the failure
  \<open>No files were uploaded successfully\<close> (400), and the directories have changed: the
  directory of the bucket, absent before, is there, empty.
\<close>

theorem failed_upload_creates_folder:
  assumes "query_first db bucket_name = Some b" and "\<not> folder_exists fs bucket_name"
    and "\<exists>f \<in> set files. filename f \<noteq> []"
    and "\<forall>f \<in> set files. filename f = [] \<or> \<not> allowed_file lib (filename f) \<or>
           secure_filename lib (filename f) = []"
  shows "(\<exists>errors. fst (upload_file lib db fs bucket_name files) =
            UploadFailure (lit ''No files were uploaded successfully'') errors) \<and>
         status (fst (upload_file lib db fs bucket_name files)) = 400 \<and>
         snd (upload_file lib db fs bucket_name files) = fs @ [(bucket_name, [])] \<and>
         folder_exists (snd (upload_file lib db fs bucket_name files)) bucket_name \<and>
         snd (upload_file lib db fs bucket_name files) \<noteq> fs"
proof -
  have "\<forall>f \<in> set files. rejected lib (mkdir_exist_ok fs bucket_name) bucket_name f"
    using assms(4) by (auto simp: rejected_def)
  from upload_loop_all_rejected [OF this] obtain e
    where l: "upload_loop lib bucket_name files (mkdir_exist_ok fs bucket_name, [], []) =
                (mkdir_exist_ok fs bucket_name, [], e)"
    by blast
  have "upload_file lib db fs bucket_name files =
          (UploadFailure (lit ''No files were uploaded successfully'') e,
           mkdir_exist_ok fs bucket_name)"
    using upload_file_run [OF assms(1,3) l] by simp
  moreover have "mkdir_exist_ok fs bucket_name = fs @ [(bucket_name, [])]"
    using assms(2) by (rule mkdir_absent)
  moreover have "folder_exists (mkdir_exist_ok fs bucket_name) bucket_name"
    by (rule folder_exists_mkdir)
  ultimately show ?thesis by simp
qed

theorem failed_upload_creates_folder_witness:
  "upload_file example_library
     [\<lparr>b_id = 1, b_name = lit ''my-data'', b_created_at = example_time\<rparr>] [] (lit ''my-data'')
     [\<lparr>filename = lit ''virus.exe'', payload = ''x'', clock = example_time,
       write_fault = None\<rparr>] =
   (UploadFailure (lit ''No files were uploaded successfully'')
      [lit ''File type not allowed: virus.exe''],
    [(lit ''my-data'', [])])"
proof -
  let ?db = "[\<lparr>b_id = 1, b_name = lit ''my-data'', b_created_at = example_time\<rparr>]"
  let ?files = "[\<lparr>filename = lit ''virus.exe'', payload = ''x'', clock = example_time,
       write_fault = None\<rparr>]"
  have q: "query_first ?db (lit ''my-data'') =
             Some \<lparr>b_id = 1, b_name = lit ''my-data'', b_created_at = example_time\<rparr>"
    by (simp add: query_first_def)
  have nf: "\<not> folder_exists [] (lit ''my-data'')"
    by (simp add: folder_exists_def)
  have n2: "lit ''virus.exe'' \<noteq> []" by (simp add: lit_def)
  then have ne: "\<exists>f \<in> set ?files. filename f \<noteq> []" by simp
  have rj: "\<forall>f \<in> set ?files. filename f = [] \<or> \<not> allowed_file example_library (filename f) \<or>
           secure_filename example_library (filename f) = []"
    by (simp add: example_not_allowed)
  from failed_upload_creates_folder [OF q nf ne rj]
  have s: "snd (upload_file example_library ?db [] (lit ''my-data'') ?files) =
      [(lit ''my-data'', [])]"
    by simp
  have "fst (upload_file example_library ?db [] (lit ''my-data'') ?files) =
      UploadFailure (lit ''No files were uploaded successfully'')
        [lit ''File type not allowed: virus.exe'']"
    using n2
    by (simp add: upload_file_def query_first_def mkdir_exist_ok_def folder_exists_def
        upload_step_def example_not_allowed lit_append)
  with s show ?thesis by (simp add: prod_eq_iff)
qed

end
